theory Spec2Isabelle
  imports Complex_Main "HOL-Library.Log_Nat"
begin

section \<open>Data model\<close>

text \<open>
  Money columns (\<^verbatim>\<open>db.Float\<close>: prices, subtotal, delivery charges, discount, total)
  are rationals: every double is one. The comparisons and the shape of every formula are
  those of the source. The sums and differences that \<^verbatim>\<open>routes.py\<close> computes on amounts
  (the order total, the \<^verbatim>\<open>new_total\<close> of the coupon endpoint) are rounded to the nearest
  double by \<open>round_double\<close>; the product and quotient inside \<open>calculate_discount\<close> and
  the line totals of the cart are kept exact. Point balances and usage counters are
  Python integers, hence \<open>int\<close>. A naive \<^verbatim>\<open>datetime\<close> is a point on a linear time axis,
  an \<open>int\<close> here; the clock read by \<^verbatim>\<open>get_ist_now()\<close> is the parameter \<open>now\<close>. A
  nullable column is an \<open>option\<close>.
\<close>

type_synonym amount = rat
type_synonym datetime = int

subsection \<open>Python floats\<close>

text \<open>
  The result of an arithmetic operation on Python floats is the exact result rounded to
  the nearest IEEE 754 double, ties to the even significand. A double other than 0 is an
  integer of 53 bits times a power of two: \<open>double_exponent x\<close> is the \<open>e\<close> with
  \<open>2 ^ e \<le> \<bar>x\<bar> < 2 ^ (e + 1)\<close>, the last bit of the significand then weighs
  \<open>2 ^ (e - 52)\<close>, and \<open>round_double\<close> rounds to a multiple of that weight. The
  limits of the exponent (overflow beyond about \<open>1.8e308\<close>, subnormal numbers below
  about \<open>2.2e-308\<close>) are left out.
\<close>

definition round_half_even :: "rat \<Rightarrow> int" where
  "round_half_even m =
     (let f = \<lfloor>m\<rfloor>; r = m - of_int f
      in if r < 1 / 2 then f
         else if r > 1 / 2 then f + 1
         else if even f then f else f + 1)"

definition double_exponent :: "rat \<Rightarrow> int" where
  "double_exponent x =
     (if 1 \<le> \<bar>x\<bar> then bitlen \<lfloor>\<bar>x\<bar>\<rfloor> - 1 else - bitlen (\<lceil>1 / \<bar>x\<bar>\<rceil> - 1))"

definition binary_scale :: "int \<Rightarrow> rat" where
  "binary_scale k = (if 0 \<le> k then 2 ^ nat k else 1 / 2 ^ nat (- k))"

definition round_double :: "rat \<Rightarrow> amount" where
  "round_double x =
     (if x = 0 then 0
      else (let sc = binary_scale (double_exponent x - 52)
            in of_int (round_half_even (x / sc)) * sc))"

subsection \<open>utils.py: delivery charges\<close>

definition calculate_delivery_charges :: "amount \<Rightarrow> amount" where
  "calculate_delivery_charges subtotal =
     (if subtotal \<ge> 200 then 0
      else if subtotal \<ge> 150 then 15
      else if subtotal \<ge> 100 then 25
      else 25)"

subsection \<open>models.py: Promotion\<close>

record promotion =
  code :: string
  discount_type :: string
  discount_value :: amount
  min_order_amount :: amount
  max_discount :: "amount option"
  usage_limit :: "int option"
  used_count :: int
  is_active :: bool
  expires_at :: "datetime option"

text \<open>
  \<^verbatim>\<open>if self.expires_at:\<close> tests a \<^verbatim>\<open>datetime\<close>, which is true whenever it is not
  \<^verbatim>\<open>None\<close>. \<^verbatim>\<open>if self.usage_limit:\<close> and \<^verbatim>\<open>if self.max_discount:\<close> test numbers:
  Python takes \<^verbatim>\<open>None\<close> and also \<^verbatim>\<open>0\<close> as false.
\<close>

definition is_expired :: "promotion \<Rightarrow> datetime \<Rightarrow> bool" where
  "is_expired p now =
     (case expires_at p of
        Some e \<Rightarrow> now > e
      | None \<Rightarrow> False)"

definition is_usage_exceeded :: "promotion \<Rightarrow> bool" where
  "is_usage_exceeded p =
     (case usage_limit p of
        Some l \<Rightarrow> (if l \<noteq> 0 then used_count p \<ge> l else False)
      | None \<Rightarrow> False)"

definition is_valid :: "promotion \<Rightarrow> datetime \<Rightarrow> bool" where
  "is_valid p now = (is_active p \<and> \<not> is_expired p now \<and> \<not> is_usage_exceeded p)"

definition calculate_discount :: "promotion \<Rightarrow> datetime \<Rightarrow> amount \<Rightarrow> amount" where
  "calculate_discount p now subtotal =
     (if \<not> is_valid p now \<or> subtotal < min_order_amount p then 0
      else if discount_type p = ''percentage'' then
        (let discount = subtotal * (discount_value p / 100)
         in case max_discount p of
              Some c \<Rightarrow> (if c \<noteq> 0 then min discount c else discount)
            | None \<Rightarrow> discount)
      else min (discount_value p) subtotal)"

subsection \<open>models.py: User and the loyalty tiers\<close>

record user =
  uid :: nat
  role :: string
  loyalty_points :: int
  loyalty_tier :: string

text \<open>One entry of the \<^verbatim>\<open>tiers\<close> dictionary; \<open>max_points = None\<close> stands for \<^verbatim>\<open>float('inf')\<close>.\<close>

record tier_info =
  min_points :: int
  max_points :: "int option"
  conversion_rate :: int
  color :: string

definition tiers :: "(string \<times> tier_info) list" where
  "tiers =
     [(''bronze'', \<lparr>min_points = 0, max_points = Some 999, conversion_rate = 5, color = ''#CD7F32''\<rparr>),
      (''silver'', \<lparr>min_points = 1000, max_points = Some 2499, conversion_rate = 4, color = ''#C0C0C0''\<rparr>),
      (''gold'', \<lparr>min_points = 2500, max_points = Some 4999, conversion_rate = 3, color = ''#FFD700''\<rparr>),
      (''platinum'', \<lparr>min_points = 5000, max_points = None, conversion_rate = 2, color = ''#E5E4E2''\<rparr>)]"

definition in_band :: "int \<Rightarrow> tier_info \<Rightarrow> bool" where
  "in_band pts info =
     (min_points info \<le> pts \<and> (case max_points info of Some m \<Rightarrow> pts \<le> m | None \<Rightarrow> True))"

text \<open>The \<^verbatim>\<open>for tier, info in tiers.items()\<close> loop with its \<^verbatim>\<open>break\<close>: the first band, in
  insertion order, that holds the balance; \<open>current_tier\<close> is the value the loop leaves
  in the variable, \<^verbatim>\<open>'bronze'\<close> when no band matched.\<close>

fun scan_tiers :: "int \<Rightarrow> (string \<times> tier_info) list \<Rightarrow> string \<Rightarrow> string" where
  "scan_tiers pts [] current_tier = current_tier"
| "scan_tiers pts ((tier, info) # rest) current_tier =
     (if in_band pts info then tier else scan_tiers pts rest current_tier)"

text \<open>\<^verbatim>\<open>tiers[current_tier]\<close> raises \<^verbatim>\<open>KeyError\<close> on a missing key, hence the option.\<close>

definition get_loyalty_tier_info :: "user \<Rightarrow> tier_info option \<times> user" where
  "get_loyalty_tier_info u =
     (let current_tier = scan_tiers (loyalty_points u) tiers ''bronze'';
          u' = (if loyalty_tier u \<noteq> current_tier then u\<lparr>loyalty_tier := current_tier\<rparr> else u)
      in (map_of tiers current_tier, u'))"

datatype redeem_error = BelowMinimum | InsufficientPoints | KeyError

text \<open>\<^verbatim>\<open>return False, "Minimum redemption is 100 points"\<close> is \<open>Inl BelowMinimum\<close>,
  \<^verbatim>\<open>return False, "Insufficient points"\<close> is \<open>Inl InsufficientPoints\<close>, and
  \<^verbatim>\<open>return True, redeemed_amount\<close> is \<open>Inr\<close> of the amount with the updated user.\<close>

definition redeem_points :: "user \<Rightarrow> int \<Rightarrow> redeem_error + (int \<times> user)" where
  "redeem_points u points_to_redeem =
     (if points_to_redeem < 100 then Inl BelowMinimum
      else if points_to_redeem > loyalty_points u then Inl InsufficientPoints
      else
        (case get_loyalty_tier_info u of
           (None, u1) \<Rightarrow> Inl KeyError
         | (Some info, u1) \<Rightarrow>
             (let redeemed_amount = points_to_redeem div conversion_rate info
              in Inr (redeemed_amount, u1\<lparr>loyalty_points := loyalty_points u1 - points_to_redeem\<rparr>))))"

definition get_redeemable_amount :: "user \<Rightarrow> int option \<times> user" where
  "get_redeemable_amount u =
     (if loyalty_points u < 100 then (Some 0, u)
      else
        (case get_loyalty_tier_info u of
           (None, u1) \<Rightarrow> (None, u1)
         | (Some info, u1) \<Rightarrow> (Some (loyalty_points u1 div conversion_rate info), u1)))"


subsection \<open>Strings\<close>

text \<open>
  Form fields and coupon codes are taken as ASCII strings: \<^verbatim>\<open>str.upper()\<close> maps the
  letters a to z to A to Z and \<^verbatim>\<open>str.strip()\<close> removes the leading and trailing
  characters that \<^verbatim>\<open>str.isspace()\<close> accepts (codes 9 to 13 and 28 to 32);
  \<^verbatim>\<open>re.sub(r'\D', '', phone)\<close> keeps the digits 0 to 9.
\<close>

definition is_space :: "char \<Rightarrow> bool" where
  "is_space c =
     ((9 \<le> (of_char c :: nat) \<and> (of_char c :: nat) \<le> 13) \<or>
      (28 \<le> (of_char c :: nat) \<and> (of_char c :: nat) \<le> 32))"

definition strip :: "string \<Rightarrow> string" where
  "strip s = rev (dropWhile is_space (rev (dropWhile is_space s)))"

definition upper_char :: "char \<Rightarrow> char" where
  "upper_char c =
     (if 97 \<le> (of_char c :: nat) \<and> (of_char c :: nat) \<le> 122
      then char_of ((of_char c :: nat) - 32) else c)"

definition upper :: "string \<Rightarrow> string" where
  "upper s = map upper_char s"

definition is_digit :: "char \<Rightarrow> bool" where
  "is_digit c = (48 \<le> (of_char c :: nat) \<and> (of_char c :: nat) \<le> 57)"

definition validate_phone :: "string \<Rightarrow> bool" where
  "validate_phone phone =
     (if phone = [] then False
      else (let cleaned = filter is_digit phone
            in 10 \<le> length cleaned \<and> length cleaned \<le> 15))"

subsection \<open>models.py: the tables\<close>

record menu_item =
  item_id :: nat
  price :: amount

record cart_item =
  cart_user_id :: nat
  cart_menu_item_id :: nat
  cart_quantity :: int

record order_item =
  oi_order_id :: nat
  oi_menu_item_id :: nat
  oi_quantity :: int
  unit_price :: amount
  total_price :: amount

record order =
  order_id :: nat
  user_id :: "nat option"
  guest_name :: "string option"
  guest_phone :: "string option"
  customer_name :: string
  customer_phone :: string
  customer_address :: string
  subtotal :: amount
  delivery_charges :: amount
  discount :: amount
  total_amount :: amount
  payment_method :: string
  payment_status :: string
  coupon_code :: "string option"
  status :: string
  confirmed_at :: "datetime option"
  delivery_time :: "datetime option"
  delivery_person_id :: "nat option"
  order_number :: string

record tables =
  users :: "user list"
  menu_items :: "menu_item list"
  cart_items :: "cart_item list"
  orders :: "order list"
  order_items :: "order_item list"
  promotions :: "promotion list"

text \<open>
  The SQLAlchemy session: \<open>pending\<close> is what the request sees and changes,
  \<open>committed\<close> is what the database holds. \<^verbatim>\<open>db.session.commit()\<close> stores the pending
  state, \<^verbatim>\<open>db.session.rollback()\<close> throws it away. A request starts on the committed
  tables and leaves the committed tables behind.
\<close>

record db_session =
  committed :: tables
  pending :: tables

definition begin_request :: "tables \<Rightarrow> db_session" where
  "begin_request db = \<lparr>committed = db, pending = db\<rparr>"

definition commit :: "db_session \<Rightarrow> db_session" where
  "commit s = s\<lparr>committed := pending s\<rparr>"

definition rollback :: "db_session \<Rightarrow> db_session" where
  "rollback s = s\<lparr>pending := committed s\<rparr>"

text \<open>A row reached through \<^verbatim>\<open>query...first()\<close> or \<^verbatim>\<open>query.get(id)\<close> is the first
  one that matches; assigning to its attributes changes that row.\<close>

fun update_first :: "('a \<Rightarrow> bool) \<Rightarrow> ('a \<Rightarrow> 'a) \<Rightarrow> 'a list \<Rightarrow> 'a list" where
  "update_first P f [] = []"
| "update_first P f (x # xs) = (if P x then f x # xs else x # update_first P f xs)"

text \<open>\<^verbatim>\<open>if user_id:\<close> and \<^verbatim>\<open>if order.delivery_person_id:\<close>: \<^verbatim>\<open>None\<close> and \<^verbatim>\<open>0\<close> are false.\<close>

definition truthy :: "nat option \<Rightarrow> bool" where
  "truthy x = (case x of None \<Rightarrow> False | Some i \<Rightarrow> i \<noteq> 0)"

definition is_admin :: "user \<Rightarrow> bool" where
  "is_admin u = (role u = ''admin'')"

definition is_delivery_person :: "user \<Rightarrow> bool" where
  "is_delivery_person u = (role u = ''delivery'')"

definition use_promotion :: "db_session \<Rightarrow> promotion \<Rightarrow> db_session" where
  "use_promotion s p =
     commit (s\<lparr>pending := (pending s)\<lparr>promotions :=
       update_first (\<lambda>q. code q = code p) (\<lambda>q. q\<lparr>used_count := used_count q + 1\<rparr>)
         (promotions (pending s))\<rparr>\<rparr>)"

subsection \<open>utils.py: the cart\<close>

text \<open>One dictionary of the list \<^verbatim>\<open>get_cart_items\<close> returns.\<close>

record cart_line =
  line_id :: nat
  line_price :: amount
  line_quantity :: int
  line_total :: amount

definition get_cart_items :: "tables \<Rightarrow> nat \<Rightarrow> cart_line list" where
  "get_cart_items db uid' =
     List.map_filter
       (\<lambda>ci. case find (\<lambda>m. item_id m = cart_menu_item_id ci) (menu_items db) of
                None \<Rightarrow> None
              | Some m \<Rightarrow>
                  Some \<lparr>line_id = item_id m, line_price = price m,
                        line_quantity = cart_quantity ci,
                        line_total = of_int (cart_quantity ci) * price m\<rparr>)
       (filter (\<lambda>ci. cart_user_id ci = uid') (cart_items db))"

definition clear_user_cart :: "db_session \<Rightarrow> nat \<Rightarrow> db_session" where
  "clear_user_cart s uid' =
     commit (s\<lparr>pending := (pending s)\<lparr>cart_items :=
       filter (\<lambda>ci. cart_user_id ci \<noteq> uid') (cart_items (pending s))\<rparr>\<rparr>)"

subsection \<open>routes.py: checkout\<close>

text \<open>
  What a checkout request carries: the result of \<^verbatim>\<open>is_store_open()\<close>, the session's
  \<^verbatim>\<open>user_id\<close>, the form fields as posted, the two clocks, and the order number that
  \<^verbatim>\<open>Order.generate_order_number()\<close> draws at random. One request reads each clock at
  one instant: \<open>ist_now\<close> is \<^verbatim>\<open>get_ist_now()\<close>, \<open>utc_now\<close> is \<^verbatim>\<open>datetime.utcnow()\<close>.
\<close>

record checkout_request =
  store_is_open :: bool
  session_user_id :: "nat option"
  form_customer_name :: string
  form_customer_phone :: string
  form_customer_address :: string
  form_payment_method :: string
  form_coupon_code :: string
  ist_now :: datetime
  utc_now :: datetime
  generated_order_number :: string

datatype checkout_result =
    StoreClosed
  | MissingFields
  | InvalidPhone
  | CartEmpty
  | InvalidCoupon
  | UpiPayment nat
  | OrderConfirmation nat
  | CheckoutError

text \<open>Lines 250 to 262 of \<^verbatim>\<open>process_checkout\<close>: the discount and the session after the
  coupon was used, or \<open>None\<close> for the redirect "Invalid or expired coupon code".\<close>

definition checkout_coupon ::
  "db_session \<Rightarrow> datetime \<Rightarrow> string \<Rightarrow> amount \<Rightarrow> (amount \<times> db_session) option" where
  "checkout_coupon s now coupon subtotal' =
     (if coupon \<noteq> [] then
        (case find (\<lambda>p. code p = strip (upper coupon)) (promotions (pending s)) of
           Some promotion \<Rightarrow>
             (if is_valid promotion now \<and> subtotal' \<ge> min_order_amount promotion
              then Some (calculate_discount promotion now subtotal', use_promotion s promotion)
              else None)
         | None \<Rightarrow> None)
      else Some (0, s))"

definition next_order_id :: "tables \<Rightarrow> nat" where
  "next_order_id db = Suc (fold max (map order_id (orders db)) 0)"

text \<open>
  Lines 266 to 322, the \<^verbatim>\<open>try\<close> block. \<^verbatim>\<open>db.session.flush()\<close> sends the new order to
  the database, which rejects it when its \<^verbatim>\<open>order_number\<close> (a unique column) is already
  taken: that exception is the one the model has, and the handler rolls back.
  \<open>total\<close> is line 264, \<^verbatim>\<open>subtotal + delivery_charges - discount\<close>: two operations on
  floats, from left to right.
\<close>

definition create_order ::
  "db_session \<Rightarrow> checkout_request \<Rightarrow> string \<Rightarrow> string \<Rightarrow> string \<Rightarrow> string \<Rightarrow>
   cart_line list \<Rightarrow> amount \<Rightarrow> amount \<Rightarrow> amount \<Rightarrow> checkout_result \<times> db_session" where
  "create_order s rq name phone address coupon lines subtotal' delivery discount' =
     (let total = round_double (round_double (subtotal' + delivery) - discount');
          uid' = session_user_id rq;
          order =
            \<lparr>order_id = next_order_id (pending s),
             user_id = uid',
             guest_name = (if \<not> truthy uid' then Some name else None),
             guest_phone = (if \<not> truthy uid' then Some phone else None),
             customer_name = name,
             customer_phone = phone,
             customer_address = address,
             subtotal = subtotal',
             delivery_charges = delivery,
             discount = discount',
             total_amount = total,
             payment_method = form_payment_method rq,
             payment_status = ''pending'',
             coupon_code = (if coupon \<noteq> [] then Some coupon else None),
             status = ''pending'',
             confirmed_at = None,
             delivery_time = None,
             delivery_person_id = None,
             order_number = generated_order_number rq\<rparr>
      in if generated_order_number rq \<in> set (map order_number (orders (pending s)))
         then (CheckoutError, rollback s)
         else
           (let s1 = s\<lparr>pending := (pending s)\<lparr>orders := orders (pending s) @ [order]\<rparr>\<rparr>;
                items = map (\<lambda>l. \<lparr>oi_order_id = order_id order, oi_menu_item_id = line_id l,
                                   oi_quantity = line_quantity l, unit_price = line_price l,
                                   total_price = line_total l\<rparr>) lines;
                s2 = s1\<lparr>pending := (pending s1)\<lparr>order_items := order_items (pending s1) @ items\<rparr>\<rparr>;
                s3 = (case uid' of
                        Some i \<Rightarrow> (if i \<noteq> 0 then clear_user_cart s2 i else s2)
                      | None \<Rightarrow> s2);
                s4 = commit s3
            in if form_payment_method rq = ''upi'' then (UpiPayment (order_id order), s4)
               else
                 (OrderConfirmation (order_id order),
                  commit (s4\<lparr>pending := (pending s4)\<lparr>orders :=
                    update_first (\<lambda>r. order_id r = order_id order)
                      (\<lambda>r. r\<lparr>payment_status := ''confirmed'', confirmed_at := Some (utc_now rq)\<rparr>)
                      (orders (pending s4))\<rparr>\<rparr>))))"

definition process_checkout :: "tables \<Rightarrow> checkout_request \<Rightarrow> checkout_result \<times> tables" where
  "process_checkout db rq =
     (if \<not> store_is_open rq then (StoreClosed, db)
      else
        (let name = strip (form_customer_name rq);
             phone = strip (form_customer_phone rq);
             address = strip (form_customer_address rq);
             coupon = strip (form_coupon_code rq)
         in if name = [] \<or> phone = [] \<or> address = [] then (MissingFields, db)
            else if \<not> validate_phone phone then (InvalidPhone, db)
            else
              (let lines = (case session_user_id rq of
                              Some i \<Rightarrow> (if i \<noteq> 0 then get_cart_items db i else [])
                            | None \<Rightarrow> [])
               in if lines = [] then (CartEmpty, db)
                  else
                    (let subtotal' = sum_list (map line_total lines);
                         delivery = calculate_delivery_charges subtotal'
                     in case checkout_coupon (begin_request db) (ist_now rq) coupon subtotal' of
                          None \<Rightarrow> (InvalidCoupon, db)
                        | Some (discount', s) \<Rightarrow>
                            (case create_order s rq name phone address coupon lines
                                    subtotal' delivery discount' of
                               (res, s') \<Rightarrow> (res, committed s'))))))"

subsection \<open>routes.py: coupon validation\<close>




subsection \<open>routes.py: delivery and status updates\<close>

text \<open>
  The outcomes of a route: the redirect to the login page, the "Access denied" flash, the
  404 of \<^verbatim>\<open>get_or_404\<close>, a flashed warning or error that leaves the order as it was
  (\<open>Rejected\<close>), and the committed change with its success flash (\<open>Done\<close>).
  \<open>get_user\<close> is \<^verbatim>\<open>User.query.get(id)\<close>, \<open>get_order\<close> is \<^verbatim>\<open>Order.query.get(id)\<close>, and
  \<open>set_order\<close> is the assignment to attributes of the order fetched that way.
\<close>

datatype route_result = LoginRequired | AccessDenied | OrderNotFound | Rejected | Done

definition get_user :: "tables \<Rightarrow> nat \<Rightarrow> user option" where
  "get_user db i = find (\<lambda>u. uid u = i) (users db)"

definition get_order :: "tables \<Rightarrow> nat \<Rightarrow> order option" where
  "get_order db i = find (\<lambda>r. order_id r = i) (orders db)"

definition set_order :: "tables \<Rightarrow> nat \<Rightarrow> (order \<Rightarrow> order) \<Rightarrow> tables" where
  "set_order db i f = db\<lparr>orders := update_first (\<lambda>r. order_id r = i) f (orders db)\<rparr>"

definition assign_order :: "tables \<Rightarrow> nat option \<Rightarrow> nat \<Rightarrow> route_result \<times> tables" where
  "assign_order db session_uid oid =
     (case session_uid of
        None \<Rightarrow> (LoginRequired, db)
      | Some sid \<Rightarrow>
          (case get_user db sid of
             None \<Rightarrow> (AccessDenied, db)
           | Some u \<Rightarrow>
               (if \<not> is_delivery_person u then (AccessDenied, db)
                else
                  (case get_order db oid of
                     None \<Rightarrow> (OrderNotFound, db)
                   | Some order \<Rightarrow>
                       (if truthy (delivery_person_id order) then (Rejected, db)
                        else
                          (Done,
                           set_order db oid
                             (\<lambda>r. (if status r = ''confirmed''
                                    then r\<lparr>delivery_person_id := Some (uid u), status := ''preparing''\<rparr>
                                    else r\<lparr>delivery_person_id := Some (uid u)\<rparr>))))))))"

text \<open>Lines 1033 to 1037 of \<^verbatim>\<open>complete_delivery\<close>: the points of a registered customer,
  \<^verbatim>\<open>int(order.total_amount // 10)\<close>.\<close>

definition credit_points :: "tables \<Rightarrow> order \<Rightarrow> tables" where
  "credit_points db order =
     (case user_id order of
        None \<Rightarrow> db
      | Some cid \<Rightarrow>
          (if cid = 0 then db
           else
             (case get_user db cid of
                None \<Rightarrow> db
              | Some customer \<Rightarrow>
                  (let points_earned = \<lfloor>total_amount order / 10\<rfloor>
                   in db\<lparr>users := update_first (\<lambda>u. uid u = cid)
                        (\<lambda>u. u\<lparr>loyalty_points := loyalty_points u + points_earned\<rparr>)
                        (users db)\<rparr>))))"

definition complete_delivery ::
  "tables \<Rightarrow> nat option \<Rightarrow> datetime \<Rightarrow> nat \<Rightarrow> route_result \<times> tables" where
  "complete_delivery db session_uid now oid =
     (case session_uid of
        None \<Rightarrow> (LoginRequired, db)
      | Some sid \<Rightarrow>
          (case get_user db sid of
             None \<Rightarrow> (AccessDenied, db)
           | Some u \<Rightarrow>
               (if \<not> is_delivery_person u then (AccessDenied, db)
                else
                  (case get_order db oid of
                     None \<Rightarrow> (OrderNotFound, db)
                   | Some order \<Rightarrow>
                       (if delivery_person_id order \<noteq> Some (uid u) then (Rejected, db)
                        else
                          (Done,
                           credit_points
                             (set_order db oid
                                (\<lambda>r. r\<lparr>status := ''delivered'', delivery_time := Some now,
                                        payment_status := ''confirmed''\<rparr>))
                             order))))))"

definition update_order_status ::
  "tables \<Rightarrow> nat option \<Rightarrow> datetime \<Rightarrow> nat \<Rightarrow> string \<Rightarrow> route_result \<times> tables" where
  "update_order_status db session_uid utcnow oid new_status =
     (case session_uid of
        None \<Rightarrow> (LoginRequired, db)
      | Some sid \<Rightarrow>
          (case get_user db sid of
             None \<Rightarrow> (AccessDenied, db)
           | Some u \<Rightarrow>
               (if \<not> is_admin u then (AccessDenied, db)
                else
                  (case get_order db oid of
                     None \<Rightarrow> (OrderNotFound, db)
                   | Some order \<Rightarrow>
                       (Done,
                        set_order db oid
                          (\<lambda>r. (if new_status = ''delivered''
                                 then r\<lparr>status := new_status, delivery_time := Some utcnow\<rparr>
                                 else r\<lparr>status := new_status\<rparr>)))))))"

subsection \<open>Example data\<close>

text \<open>\<^verbatim>\<open>BIRYANI20\<close> is the third promotion that \<^verbatim>\<open>app.py\<close> seeds; the others are
  rows that the admin form of \<^verbatim>\<open>add_promotion\<close> accepts.\<close>

definition promo_biryani20 :: promotion where
  "promo_biryani20 =
     \<lparr>code = ''BIRYANI20'', discount_type = ''percentage'', discount_value = 20,
      min_order_amount = 200, max_discount = Some 150, usage_limit = Some 100, used_count = 0,
      is_active = True, expires_at = None\<rparr>"

definition promo_zero_limit :: promotion where
  "promo_zero_limit =
     \<lparr>code = ''FREE'', discount_type = ''fixed'', discount_value = 50, min_order_amount = 0,
      max_discount = None, usage_limit = Some 0, used_count = 0, is_active = True,
      expires_at = None\<rparr>"

definition promo_zero_cap :: promotion where
  "promo_zero_cap =
     \<lparr>code = ''TEN'', discount_type = ''percentage'', discount_value = 10, min_order_amount = 0,
      max_discount = Some 0, usage_limit = None, used_count = 0, is_active = True,
      expires_at = None\<rparr>"

definition user_50 :: user where
  "user_50 = \<lparr>uid = 1, role = ''customer'', loyalty_points = 50, loyalty_tier = ''bronze''\<rparr>"

definition user_1050 :: user where
  "user_1050 = \<lparr>uid = 2, role = ''customer'', loyalty_points = 1050, loyalty_tier = ''bronze''\<rparr>"

text \<open>A small shop: one customer with a cart, one delivery person, one admin, and
  promotions that the admin form accepts (\<^verbatim>\<open>WELCOME10\<close> is the first one that
  \<^verbatim>\<open>app.py\<close> seeds).\<close>

definition menu0 :: "menu_item list" where
  "menu0 = [\<lparr>item_id = 1, price = 100\<rparr>, \<lparr>item_id = 2, price = 45\<rparr>]"

definition customer0 :: user where
  "customer0 = \<lparr>uid = 1, role = ''customer'', loyalty_points = 0, loyalty_tier = ''bronze''\<rparr>"

definition courier0 :: user where
  "courier0 = \<lparr>uid = 2, role = ''delivery'', loyalty_points = 0, loyalty_tier = ''bronze''\<rparr>"

definition admin0 :: user where
  "admin0 = \<lparr>uid = 3, role = ''admin'', loyalty_points = 0, loyalty_tier = ''bronze''\<rparr>"

definition promo_double :: promotion where
  "promo_double =
     \<lparr>code = ''DOUBLE'', discount_type = ''percentage'', discount_value = 200,
      min_order_amount = 0, max_discount = None, usage_limit = None, used_count = 0,
      is_active = True, expires_at = None\<rparr>"

definition promo_once :: promotion where
  "promo_once =
     \<lparr>code = ''ONCE'', discount_type = ''fixed'', discount_value = 50,
      min_order_amount = 0, max_discount = None, usage_limit = Some 1, used_count = 0,
      is_active = True, expires_at = None\<rparr>"

definition promo_welcome10 :: promotion where
  "promo_welcome10 =
     \<lparr>code = ''WELCOME10'', discount_type = ''percentage'', discount_value = 10,
      min_order_amount = 100, max_discount = Some 100, usage_limit = None, used_count = 0,
      is_active = True, expires_at = None\<rparr>"

definition order_10 :: order where
  "order_10 =
     \<lparr>order_id = 10, user_id = Some 1, guest_name = None, guest_phone = None,
      customer_name = ''Asha'', customer_phone = ''9876543210'',
      customer_address = ''12 Main Road'', subtotal = 250, delivery_charges = 0, discount = 0,
      total_amount = 250, payment_method = ''cash'', payment_status = ''confirmed'',
      coupon_code = None, status = ''out_for_delivery'', confirmed_at = Some 600,
      delivery_time = None, delivery_person_id = Some 2, order_number = ''BC123456''\<rparr>"

definition db_cart :: tables where
  "db_cart =
     \<lparr>users = [customer0, courier0, admin0], menu_items = menu0,
      cart_items = [\<lparr>cart_user_id = 1, cart_menu_item_id = 1, cart_quantity = 1\<rparr>],
      orders = [], order_items = [],
      promotions = [promo_double, promo_once, promo_welcome10]\<rparr>"

definition db_orders :: tables where
  "db_orders = db_cart\<lparr>orders := [order_10]\<rparr>"

definition rq0 :: checkout_request where
  "rq0 =
     \<lparr>store_is_open = True, session_user_id = Some 1, form_customer_name = ''Asha'',
      form_customer_phone = ''9876543210'', form_customer_address = ''12 Main Road'',
      form_payment_method = ''cash'', form_coupon_code = ''double'',
      ist_now = 1000, utc_now = 670, generated_order_number = ''BC123456''\<rparr>"

definition order_pending :: order where
  "order_pending = order_10\<lparr>status := ''pending'', delivery_person_id := None\<rparr>"

definition order_done :: order where
  "order_done = order_10\<lparr>status := ''delivered'', delivery_person_id := None\<rparr>"





section \<open>Delivery charges\<close>

text \<open>
  C2. For every subtotal the delivery charge is 0 from 200 on, 15 from 150 to below 200,
  and 25 below 150: the band below 100 costs the same 25 as the band from 100 to below
  150, and the bounds 100, 150 and 200 belong to the band above them.
\<close>

theorem delivery_charge_bands:
  "(s \<ge> 200 \<longrightarrow> calculate_delivery_charges s = 0) \<and>
   (150 \<le> s \<and> s < 200 \<longrightarrow> calculate_delivery_charges s = 15) \<and>
   (s < 150 \<longrightarrow> calculate_delivery_charges s = 25) \<and>
   (s < 100 \<longrightarrow> calculate_delivery_charges s = calculate_delivery_charges 100) \<and>
   calculate_delivery_charges 100 = 25 \<and>
   calculate_delivery_charges 150 = 15 \<and>
   calculate_delivery_charges 200 = 0"
  by (simp add: calculate_delivery_charges_def)

theorem delivery_charge_bands_witness:
  "calculate_delivery_charges 250 = 0 \<and>
   calculate_delivery_charges 180 = 15 \<and>
   calculate_delivery_charges (14999 / 100) = 25 \<and>
   calculate_delivery_charges (9999 / 100) = calculate_delivery_charges 100"
  using delivery_charge_bands [of 250] delivery_charge_bands [of 180]
    delivery_charge_bands [of "14999 / 100"] delivery_charge_bands [of "9999 / 100"]
  by simp

section \<open>Promotions\<close>

text \<open>
  C4, as amended. A promotion is valid if and only if its active flag is set, it has no
  expiry or \<open>now\<close> is not after the expiry, and its usage limit is unset or zero or its
  \<open>used_count\<close> is below the limit. Every promotion whose \<open>used_count\<close> equals a
  non-zero usage limit is invalid, whatever its active flag and expiry.
\<close>

theorem is_valid_iff:
  "(is_valid p now \<longleftrightarrow>
     is_active p \<and>
     (case expires_at p of None \<Rightarrow> True | Some e \<Rightarrow> now \<le> e) \<and>
     (case usage_limit p of None \<Rightarrow> True | Some l \<Rightarrow> l = 0 \<or> used_count p < l)) \<and>
   (\<forall>l. usage_limit p = Some l \<and> l \<noteq> 0 \<and> used_count p = l \<longrightarrow> \<not> is_valid p now)"
  by (auto simp add: is_valid_def is_expired_def is_usage_exceeded_def split: option.splits)

theorem is_valid_iff_witness:
  "is_valid promo_biryani20 7 \<and>
   \<not> is_valid (promo_biryani20\<lparr>used_count := 100\<rparr>) 7 \<and>
   \<not> is_valid (promo_biryani20\<lparr>expires_at := Some 6\<rparr>) 7 \<and>
   is_valid (promo_biryani20\<lparr>expires_at := Some 7\<rparr>) 7"
  using is_valid_iff [of promo_biryani20 7]
    is_valid_iff [of "promo_biryani20\<lparr>used_count := 100\<rparr>" 7]
    is_valid_iff [of "promo_biryani20\<lparr>expires_at := Some 6\<rparr>" 7]
    is_valid_iff [of "promo_biryani20\<lparr>expires_at := Some 7\<rparr>" 7]
  by (simp add: promo_biryani20_def)

text \<open>
  C4 as stated fails on a usage limit of 0: the active promotion \<open>promo_zero_limit\<close> has
  no expiry and \<open>used_count = usage_limit = 0\<close>, and it is valid.
\<close>

theorem is_valid_zero_limit_counterexample:
  "is_active promo_zero_limit \<and> expires_at promo_zero_limit = None \<and>
   usage_limit promo_zero_limit = Some (used_count promo_zero_limit) \<and>
   is_valid promo_zero_limit 0"
  by (simp add: promo_zero_limit_def is_valid_def is_expired_def is_usage_exceeded_def)

text \<open>
  C3, as amended. \<open>calculate_discount\<close> returns 0 when the promotion is not valid or the
  subtotal is below its minimum order amount. Otherwise a percentage promotion gives
  \<open>subtotal * value / 100\<close>, clamped to \<open>max_discount\<close> whenever a non-zero cap is set
  (a cap of 0 counts as no cap), and any other kind, the fixed one, gives
  \<open>min value subtotal\<close>, which never exceeds the subtotal.
\<close>

theorem calculate_discount_cases:
  "(\<not> is_valid p now \<or> s < min_order_amount p \<longrightarrow> calculate_discount p now s = 0) \<and>
   (is_valid p now \<and> min_order_amount p \<le> s \<and> discount_type p = ''percentage'' \<longrightarrow>
      calculate_discount p now s =
        (case max_discount p of
           None \<Rightarrow> s * discount_value p / 100
         | Some c \<Rightarrow> if c = 0 then s * discount_value p / 100
                     else min (s * discount_value p / 100) c)) \<and>
   (is_valid p now \<and> min_order_amount p \<le> s \<and> discount_type p \<noteq> ''percentage'' \<longrightarrow>
      calculate_discount p now s = min (discount_value p) s \<and> calculate_discount p now s \<le> s)"
  by (auto simp add: calculate_discount_def Let_def split: option.splits)

theorem calculate_discount_cases_witness:
  "calculate_discount promo_biryani20 7 250 = 50 \<and>
   calculate_discount promo_biryani20 7 1000 = 150 \<and>
   calculate_discount promo_biryani20 7 180 = 0 \<and>
   calculate_discount (promo_biryani20\<lparr>discount_type := ''fixed'', discount_value := 300\<rparr>) 7 250 = 250"
  using calculate_discount_cases [of promo_biryani20 7 250]
    calculate_discount_cases [of promo_biryani20 7 1000]
    calculate_discount_cases [of promo_biryani20 7 180]
    calculate_discount_cases
      [of "promo_biryani20\<lparr>discount_type := ''fixed'', discount_value := 300\<rparr>" 7 250]
  by (simp add: promo_biryani20_def is_valid_def is_expired_def is_usage_exceeded_def)

text \<open>
  C3 as stated fails on a cap of 0: \<open>promo_zero_cap\<close> is a valid percentage promotion of
  10 percent whose \<open>max_discount\<close> is set to 0; on a subtotal of 100 the discount is 10,
  not the 0 that clamping to the cap would give.
\<close>

theorem calculate_discount_zero_cap_counterexample:
  "is_valid promo_zero_cap 0 \<and> \<not> 100 < min_order_amount promo_zero_cap \<and>
   discount_type promo_zero_cap = ''percentage'' \<and> max_discount promo_zero_cap = Some 0 \<and>
   calculate_discount promo_zero_cap 0 100 = 10 \<and>
   min (100 * discount_value promo_zero_cap / 100) 0 = (0::rat)"
  by (simp add: promo_zero_cap_def calculate_discount_def is_valid_def is_expired_def
      is_usage_exceeded_def)

section \<open>Loyalty tiers and redemption\<close>

lemma scan_tiers_eq:
  "scan_tiers b tiers ''bronze'' =
     (if b \<ge> 5000 then ''platinum'' else if b \<ge> 2500 then ''gold''
      else if b \<ge> 1000 then ''silver'' else ''bronze'')"
  by (simp add: tiers_def in_band_def)

lemma get_loyalty_tier_info_eq:
  "get_loyalty_tier_info u =
     (map_of tiers (scan_tiers (loyalty_points u) tiers ''bronze''),
      u\<lparr>loyalty_tier := scan_tiers (loyalty_points u) tiers ''bronze''\<rparr>)"
  by (simp add: get_loyalty_tier_info_def Let_def)

lemma map_of_tiers:
  "map_of tiers ''bronze'' =
     Some \<lparr>min_points = 0, max_points = Some 999, conversion_rate = 5, color = ''#CD7F32''\<rparr>"
  "map_of tiers ''silver'' =
     Some \<lparr>min_points = 1000, max_points = Some 2499, conversion_rate = 4, color = ''#C0C0C0''\<rparr>"
  "map_of tiers ''gold'' =
     Some \<lparr>min_points = 2500, max_points = Some 4999, conversion_rate = 3, color = ''#FFD700''\<rparr>"
  "map_of tiers ''platinum'' =
     Some \<lparr>min_points = 5000, max_points = None, conversion_rate = 2, color = ''#E5E4E2''\<rparr>"
  by (simp_all add: tiers_def)

text \<open>The \<^verbatim>\<open>KeyError\<close> of \<^verbatim>\<open>tiers[current_tier]\<close> never happens.\<close>

lemma tier_rate:
  "map_option conversion_rate (map_of tiers (scan_tiers b tiers ''bronze'')) =
     Some (if b \<ge> 5000 then 2 else if b \<ge> 2500 then 3 else if b \<ge> 1000 then 4 else 5)"
  by (simp add: scan_tiers_eq map_of_tiers)

text \<open>
  C7. The tier and conversion rate derived from a point balance are bronze with rate 5
  for 0 to 999 points, silver with rate 4 for 1000 to 2499, gold with rate 3 for 2500 to
  4999 and platinum with rate 2 from 5000 on, the lower bounds included. The tier is
  computed from the balance alone, whatever label is stored, and the user comes back
  with the stored label set to the computed tier.
\<close>

theorem loyalty_tier_bands:
  "(0 \<le> loyalty_points u \<and> loyalty_points u \<le> 999 \<longrightarrow>
      map_option conversion_rate (fst (get_loyalty_tier_info u)) = Some 5 \<and>
      snd (get_loyalty_tier_info u) = u\<lparr>loyalty_tier := ''bronze''\<rparr>) \<and>
   (1000 \<le> loyalty_points u \<and> loyalty_points u \<le> 2499 \<longrightarrow>
      map_option conversion_rate (fst (get_loyalty_tier_info u)) = Some 4 \<and>
      snd (get_loyalty_tier_info u) = u\<lparr>loyalty_tier := ''silver''\<rparr>) \<and>
   (2500 \<le> loyalty_points u \<and> loyalty_points u \<le> 4999 \<longrightarrow>
      map_option conversion_rate (fst (get_loyalty_tier_info u)) = Some 3 \<and>
      snd (get_loyalty_tier_info u) = u\<lparr>loyalty_tier := ''gold''\<rparr>) \<and>
   (5000 \<le> loyalty_points u \<longrightarrow>
      map_option conversion_rate (fst (get_loyalty_tier_info u)) = Some 2 \<and>
      snd (get_loyalty_tier_info u) = u\<lparr>loyalty_tier := ''platinum''\<rparr>)"
  by (simp add: get_loyalty_tier_info_eq scan_tiers_eq map_of_tiers)

theorem loyalty_tier_bands_witness:
  "loyalty_tier (snd (get_loyalty_tier_info
      (user_50\<lparr>loyalty_points := 999, loyalty_tier := ''gold''\<rparr>))) = ''bronze'' \<and>
   loyalty_tier (snd (get_loyalty_tier_info (user_50\<lparr>loyalty_points := 1000\<rparr>))) = ''silver'' \<and>
   loyalty_tier (snd (get_loyalty_tier_info (user_50\<lparr>loyalty_points := 2500\<rparr>))) = ''gold'' \<and>
   loyalty_tier (snd (get_loyalty_tier_info (user_50\<lparr>loyalty_points := 5000\<rparr>))) = ''platinum'' \<and>
   map_option conversion_rate (fst (get_loyalty_tier_info (user_50\<lparr>loyalty_points := 1000\<rparr>))) =
     Some 4"
  using loyalty_tier_bands [of "user_50\<lparr>loyalty_points := 999, loyalty_tier := ''gold''\<rparr>"]
    loyalty_tier_bands [of "user_50\<lparr>loyalty_points := 1000\<rparr>"]
    loyalty_tier_bands [of "user_50\<lparr>loyalty_points := 2500\<rparr>"]
    loyalty_tier_bands [of "user_50\<lparr>loyalty_points := 5000\<rparr>"]
  by (simp add: user_50_def)

text \<open>
  C6, as amended. With balance \<open>b\<close> and \<open>n\<close> requested points, \<open>redeem_points\<close> fails
  with \<open>BelowMinimum\<close> when \<open>n < 100\<close>, fails with \<open>InsufficientPoints\<close> when
  \<open>n \<ge> 100\<close> and \<open>n > b\<close>, and otherwise takes \<open>n\<close> off the balance and returns the
  floor of \<open>n\<close> divided by the conversion rate of the tier the balance had before the
  deduction.
\<close>

theorem redeem_points_cases:
  "(n < 100 \<longrightarrow> redeem_points u n = Inl BelowMinimum) \<and>
   (100 \<le> n \<and> n > loyalty_points u \<longrightarrow> redeem_points u n = Inl InsufficientPoints) \<and>
   (100 \<le> n \<and> n \<le> loyalty_points u \<longrightarrow>
      (\<exists>info. fst (get_loyalty_tier_info u) = Some info \<and>
         redeem_points u n =
           Inr (\<lfloor>rat_of_int n / rat_of_int (conversion_rate info)\<rfloor>,
                (snd (get_loyalty_tier_info u))\<lparr>loyalty_points := loyalty_points u - n\<rparr>)))"
proof -
  obtain info where info:
    "map_of tiers (scan_tiers (loyalty_points u) tiers ''bronze'') = Some info"
    using tier_rate [of "loyalty_points u"]
    by (cases "map_of tiers (scan_tiers (loyalty_points u) tiers ''bronze'')") auto
  show ?thesis
    by (simp add: redeem_points_def get_loyalty_tier_info_eq info floor_divide_of_int_eq)
qed

theorem redeem_points_cases_witness:
  "redeem_points user_1050 100 =
     Inr (25, user_1050\<lparr>loyalty_tier := ''silver'', loyalty_points := 950\<rparr>) \<and>
   redeem_points user_1050 99 = Inl BelowMinimum \<and>
   redeem_points user_1050 1051 = Inl InsufficientPoints"
  using redeem_points_cases [of 100 user_1050] redeem_points_cases [of 99 user_1050]
    redeem_points_cases [of 1051 user_1050]
  by (simp add: user_1050_def get_loyalty_tier_info_def tiers_def in_band_def)

text \<open>
  C6 as stated fails where both conditions hold: with a balance of 50 and 60 points
  requested, more than the balance, the result is \<open>BelowMinimum\<close>, not
  \<open>InsufficientPoints\<close>.
\<close>

theorem redeem_points_order_counterexample:
  "60 > loyalty_points user_50 \<and> redeem_points user_50 60 = Inl BelowMinimum \<and>
   redeem_points user_50 60 \<noteq> Inl InsufficientPoints"
  by (simp add: user_50_def redeem_points_def)

section \<open>Checkout\<close>

subsection \<open>Coupon codes\<close>












subsection \<open>The created order\<close>








text \<open>
  C1. Every order that checkout creates should have \<open>total_amount = subtotal +
  delivery_charges - discount\<close>, a discount of at most the subtotal and a total of at
  least 0. The percentage branch of \<open>calculate_discount\<close> has no bound by the subtotal:
  with the promotion \<open>DOUBLE\<close> (200 percent, no cap) a cart of 100 becomes an order with
  discount 200 and total \<open>100 + 25 - 200 = - 75\<close>.
\<close>

theorem checkout_discount_above_subtotal:
  "fst (process_checkout db_cart rq0) = OrderConfirmation 1 \<and>
   map (\<lambda>r. (subtotal r, delivery_charges r, discount r, total_amount r))
     (orders (snd (process_checkout db_cart rq0))) = [(100, 25, 200, - 75)]"
  by code_simp

text \<open>
  C9. A checkout that fails while the order is created should leave nothing behind.
  \<open>use_promotion\<close> commits before the \<^verbatim>\<open>try\<close> block starts: when the generated order
  number collides with that of an order already stored, the insertion fails and is rolled
  back, no order and no order item are stored, and the coupon \<open>ONCE\<close> keeps the use that
  was counted for the failed checkout.
\<close>

theorem checkout_failure_keeps_coupon_use:
  "process_checkout db_orders (rq0\<lparr>form_coupon_code := ''once''\<rparr>) =
     (CheckoutError,
      db_orders\<lparr>promotions := [promo_double, promo_once\<lparr>used_count := 1\<rparr>, promo_welcome10]\<rparr>)"
  by code_simp

subsection \<open>Rounding to doubles\<close>







text \<open>Known doubles: 0.1, and the 21.900000000000002 of \<^verbatim>\<open>219.0 * 0.1\<close>.\<close>

lemma round_double_examples:
  "round_double (1 / 10) = 3602879701896397 / 2 ^ 55"
  "round_double (219 * round_double (1 / 10)) = 6164301989963367 / 2 ^ 48"
  "round_double (2 ^ 53 + 1) = 2 ^ 53"
  "round_double (125 - 10 ^ 18) = round_double (100 - 10 ^ 18)"
  by code_simp+



subsection \<open>Coupon validation against checkout\<close>











section \<open>Delivery\<close>

text \<open>
  C5. Loyalty points of an order should be credited exactly once, when the order
  becomes delivered. Order 10 has a total of 250 and belongs to the customer with user
  id 1: completing its delivery twice credits 25 points twice, and the admin's status
  update to \<^verbatim>\<open>delivered\<close> credits none.
\<close>

theorem delivery_points_twice_or_never:
  "fst (complete_delivery db_orders (Some 2) 1000 10) = Done \<and>
   fst (complete_delivery (snd (complete_delivery db_orders (Some 2) 1000 10)) (Some 2) 1001 10) = Done \<and>
   map loyalty_points
     (users (snd (complete_delivery (snd (complete_delivery db_orders (Some 2) 1000 10))
        (Some 2) 1001 10))) = [50, 0, 0] \<and>
   fst (update_order_status db_orders (Some 3) 700 10 ''delivered'') = Done \<and>
   map status (orders (snd (update_order_status db_orders (Some 3) 700 10 ''delivered''))) =
     [''delivered''] \<and>
   map loyalty_points (users (snd (update_order_status db_orders (Some 3) 700 10 ''delivered''))) =
     [0, 0, 0]"
  by code_simp

text \<open>
  C8. An assignment should succeed only for an unassigned order whose status is
  \<^verbatim>\<open>confirmed\<close> or \<^verbatim>\<open>preparing\<close>. \<open>assign_order\<close> never looks at the status: an
  unassigned order that is still \<^verbatim>\<open>pending\<close>, and one that is already \<^verbatim>\<open>delivered\<close>,
  are both handed to the delivery person who asks.
\<close>

theorem assign_order_ignores_status:
  "assign_order (db_cart\<lparr>orders := [order_pending]\<rparr>) (Some 2) 10 =
     (Done, db_cart\<lparr>orders := [order_pending\<lparr>delivery_person_id := Some 2\<rparr>]\<rparr>) \<and>
   assign_order (db_cart\<lparr>orders := [order_done]\<rparr>) (Some 2) 10 =
     (Done, db_cart\<lparr>orders := [order_done\<lparr>delivery_person_id := Some 2\<rparr>]\<rparr>)"
  by code_simp

end
